theory Spec2Isabelle
  imports Main
begin

section \<open>The Account service: data model\<close>

text \<open>
  The service of \<^verbatim>\<open>service/routes.py\<close>: five request handlers over one resource, the
  Account. The handlers are embedded from the source. The entity
  (\<^verbatim>\<open>service/models.py\<close>) and the error handlers
  (\<^verbatim>\<open>service/common/error_handlers.py\<close>) are not part of the sources at hand; they
  are modelled from the specification and marked as such.
\<close>

subsection \<open>JSON values\<close>

text \<open>
  The bodies of requests and responses. Numbers are restricted to integers: the only
  numeric field of the resource is the id. An object is the list of its members in
  the order of the text.
\<close>

datatype json =
    JNull
  | JBool bool
  | JInt int
  | JStr string
  | JList "json list"
  | JObj "(string \<times> json) list"

text \<open>
  Reading a member of a parsed object: Python's parser keeps the last of several
  members with one name.
\<close>

definition json_get :: "string \<Rightarrow> (string \<times> json) list \<Rightarrow> json option" where
  "json_get k kvs = map_of (rev kvs) k"

subsection \<open>Exceptions and responses\<close>

text \<open>
  What a handler can raise: the entity's validation error, Python's
  \<^verbatim>\<open>TypeError\<close>, an HTTP exception of the framework (\<^verbatim>\<open>abort(code, description)\<close>)
  and any other failure.
\<close>

datatype exn =
    DataValidationError string
  | TypeError string
  | HTTPException nat string
  | OtherError string

datatype content = Json json | Text string

record response =
  status_code :: nat
  body :: content
  headers :: "(string \<times> string) list"

text \<open>
  Modelled from the spec: the constants of \<^verbatim>\<open>service/common/status.py\<close>, with the
  status codes that sections 4.2, 4.3 and 6 name.
\<close>

definition HTTP_200_OK :: nat where "HTTP_200_OK = 200"
definition HTTP_201_CREATED :: nat where "HTTP_201_CREATED = 201"
definition HTTP_204_NO_CONTENT :: nat where "HTTP_204_NO_CONTENT = 204"
definition HTTP_400_BAD_REQUEST :: nat where "HTTP_400_BAD_REQUEST = 400"
definition HTTP_404_NOT_FOUND :: nat where "HTTP_404_NOT_FOUND = 404"
definition HTTP_415_UNSUPPORTED_MEDIA_TYPE :: nat where "HTTP_415_UNSUPPORTED_MEDIA_TYPE = 415"
definition HTTP_500_INTERNAL_SERVER_ERROR :: nat where "HTTP_500_INTERNAL_SERVER_ERROR = 500"

text \<open>
  \<^verbatim>\<open>make_response(body, status, headers)\<close>, and the pair \<^verbatim>\<open>body, status\<close> a view
  may return instead.
\<close>

definition make_response :: "content \<Rightarrow> nat \<Rightarrow> (string \<times> string) list \<Rightarrow> response" where
  "make_response b s hs = \<lparr>status_code = s, body = b, headers = hs\<rparr>"

subsection \<open>Decimal text of an integer\<close>

text \<open>Python's \<^verbatim>\<open>str\<close> on an integer, used by the f-strings and by the URL builder.\<close>

definition digit_char :: "nat \<Rightarrow> char" where
  "digit_char d = ''0123456789'' ! (d mod 10)"

fun digits :: "nat \<Rightarrow> string" where
  "digits n = (if n < 10 then [digit_char n] else digits (n div 10) @ [digit_char (n mod 10)])"

definition str_int :: "int \<Rightarrow> string" where
  "str_int i = (if i < 0 then CHR ''-'' # digits (nat (- i)) else digits (nat i))"

subsection \<open>The request\<close>

text \<open>
  The two ways in which the framework's \<^verbatim>\<open>request.get_json()\<close> fails: the body is not
  well-formed JSON (400), or the request does not announce JSON (415).
\<close>

datatype json_failure = BadRequest | UnsupportedMediaType

text \<open>
  What the handlers read from the framework's request context:
  \<^verbatim>\<open>request.headers.get("Content-Type")\<close>, the outcome of parsing the body as JSON,
  the scheme and host that \<^verbatim>\<open>url_for(..., _external=True)\<close> prefixes, and the current
  date.
\<close>

record request =
  content_type :: "string option"
  json_body :: "json_failure + json"
  url_root :: string
  today :: string

text \<open>\<^verbatim>\<open>request.get_json()\<close>: the parsed body, or the HTTP exception of the failure.\<close>

definition get_json :: "request \<Rightarrow> exn + json" where
  "get_json req =
     (case json_body req of
        Inl BadRequest \<Rightarrow>
          Inl (HTTPException HTTP_400_BAD_REQUEST ''Failed to decode JSON object'')
      | Inl UnsupportedMediaType \<Rightarrow>
          Inl (HTTPException HTTP_415_UNSUPPORTED_MEDIA_TYPE
                 ''Did not attempt to load JSON data'')
      | Inr data \<Rightarrow> Inr data)"

subsection \<open>The Account entity and the persistence gateway\<close>

text \<open>
  The fields of section 3 of the specification. The \<^verbatim>\<open>id\<close> attribute holds whatever was
  assigned to it: \<^verbatim>\<open>None\<close> (\<open>JNull\<close>) on an entity that was never stored, the integer
  the store assigned, or the value of the \<^verbatim>\<open>id\<close> member of a body that was deserialized
  onto the entity. A date is kept as its ISO text.
\<close>

record account =
  id' :: json
  name :: string
  email :: string
  address :: string
  phone_number :: string
  date_joined :: string

text \<open>
  The backing store: the rows in insertion order and the next id the store will assign.
\<close>

record store =
  rows :: "account list"
  next_id :: int

definition empty_store :: store where
  "empty_store = \<lparr>rows = [], next_id = 1\<rparr>"

text \<open>
  The invariant of the store: the ids the store assigns start at 1, the id of every
  row is an integer, the ids are distinct (the primary key), and all lie between 1 and
  the next id to assign.
\<close>

definition store_inv :: "store \<Rightarrow> bool" where
  "store_inv db \<longleftrightarrow>
     1 \<le> next_id db \<and>
     distinct (map id' (rows db)) \<and>
     list_all (\<lambda>a. case id' a of JInt i \<Rightarrow> 1 \<le> i \<and> i < next_id db | _ \<Rightarrow> False)
       (rows db)"

text \<open>
  Modelled from the spec: \<^verbatim>\<open>Account()\<close> of \<^verbatim>\<open>service/models.py\<close>, a fresh entity with
  no id; its other fields are all overwritten by a successful \<open>Account_deserialize\<close>.
\<close>

definition Account_new :: account where
  "Account_new = \<lparr>id' = JNull, name = [], email = [], address = [],
                   phone_number = [], date_joined = []\<rparr>"

text \<open>
  Modelled from the spec: \<^verbatim>\<open>Account.serialize\<close> of \<^verbatim>\<open>service/models.py\<close> (section 4.1:
  a mapping with all fields, the date as an ISO string, never omitting a field).
\<close>

definition Account_serialize :: "account \<Rightarrow> json" where
  "Account_serialize a = JObj
     [(''id'', id' a),
      (''name'', JStr (name a)),
      (''email'', JStr (email a)),
      (''address'', JStr (address a)),
      (''phone_number'', JStr (phone_number a)),
      (''date_joined'', JStr (date_joined a))]"

definition exn_bind :: "exn + 'a \<Rightarrow> ('a \<Rightarrow> exn + 'b) \<Rightarrow> exn + 'b" where
  "exn_bind m f = (case m of Inl e \<Rightarrow> Inl e | Inr x \<Rightarrow> f x)"

text \<open>
  Modelled from the spec: the reading of one required text field by
  \<^verbatim>\<open>Account.deserialize\<close> (sections 3 and 7: a required field must be present and of
  the correct type; a missing or malformed field is a validation error).
\<close>

definition required_text :: "string \<Rightarrow> (string \<times> json) list \<Rightarrow> exn + string" where
  "required_text k kvs =
     (case json_get k kvs of
        None \<Rightarrow> Inl (DataValidationError (''Invalid Account: missing '' @ k))
      | Some (JStr s) \<Rightarrow> Inr s
      | Some _ \<Rightarrow> Inl (DataValidationError (''Invalid Account: bad type for '' @ k)))"

text \<open>
  Modelled from the spec: the reading of \<^verbatim>\<open>date_joined\<close> by \<^verbatim>\<open>Account.deserialize\<close>
  (section 3: a date, defaulting to the creation date if omitted).
\<close>

definition optional_date :: "string \<Rightarrow> (string \<times> json) list \<Rightarrow> exn + string" where
  "optional_date now kvs =
     (case json_get ''date_joined'' kvs of
        None \<Rightarrow> Inr now
      | Some (JStr s) \<Rightarrow> Inr s
      | Some _ \<Rightarrow> Inl (DataValidationError ''Invalid Account: bad type for date_joined''))"

text \<open>
  Modelled from the spec: the reading of \<^verbatim>\<open>id\<close> by \<^verbatim>\<open>Account.deserialize\<close>
  (section 4.1: an id in the input is accepted, whatever it is, and not validated;
  section 9: a body lacking an id leaves the entity's id as it is).
\<close>

definition optional_id :: "json \<Rightarrow> (string \<times> json) list \<Rightarrow> json" where
  "optional_id cur kvs = (case json_get ''id'' kvs of None \<Rightarrow> cur | Some v \<Rightarrow> v)"

text \<open>
  Modelled from the spec: \<^verbatim>\<open>Account.deserialize\<close> of \<^verbatim>\<open>service/models.py\<close> (section 4.1:
  it fails with a validation error when a required key is missing and with a
  \<^verbatim>\<open>TypeError\<close> when the input is not a mapping, and populates all fields). The first
  argument is the current date, the second the representation, the third the entity
  the method is called on.
\<close>

definition Account_deserialize :: "string \<Rightarrow> json \<Rightarrow> account \<Rightarrow> exn + account" where
  "Account_deserialize now data a =
     (case data of
        JObj kvs \<Rightarrow>
          exn_bind (required_text ''name'' kvs) (\<lambda>n.
          exn_bind (required_text ''email'' kvs) (\<lambda>e.
          exn_bind (required_text ''address'' kvs) (\<lambda>ad.
          exn_bind (required_text ''phone_number'' kvs) (\<lambda>p.
          exn_bind (optional_date now kvs) (\<lambda>d.
            Inr \<lparr>id' = optional_id (id' a) kvs, name = n, email = e, address = ad,
                 phone_number = p, date_joined = d\<rparr>)))))
      | _ \<Rightarrow> Inl (TypeError ''Invalid Account: body of request contained bad or no data''))"

text \<open>
  Modelled from the spec: \<^verbatim>\<open>Account.find\<close> of \<^verbatim>\<open>service/models.py\<close> (section 4.1: a
  single-row lookup, absent when no row matches). The entity it returns is in memory:
  what a handler changes on it reaches the store only through \<open>Account_update\<close>
  (section 4.1: update persists the current in-memory field values).
\<close>

definition Account_find :: "int \<Rightarrow> store \<Rightarrow> account option" where
  "Account_find i db = List.find (\<lambda>a. id' a = JInt i) (rows db)"

text \<open>
  Modelled from the spec: \<^verbatim>\<open>Account.all\<close> of \<^verbatim>\<open>service/models.py\<close> (section 4.1: every
  row, insertion order acceptable).
\<close>

definition Account_all :: "store \<Rightarrow> account list" where
  "Account_all db = rows db"

text \<open>
  Modelled from the spec: \<^verbatim>\<open>Account.create\<close> of \<^verbatim>\<open>service/models.py\<close> (sections 3 and
  4.1: it inserts a new row and assigns the generated id back onto the entity; an id
  in the input is ignored on creation). Failures of the database engine are outside
  the model.
\<close>

definition Account_create :: "account \<Rightarrow> store \<Rightarrow> account \<times> store" where
  "Account_create a db =
     (let a' = a\<lparr>id' := JInt (next_id db)\<rparr>
      in (a', db\<lparr>rows := rows db @ [a'], next_id := next_id db + 1\<rparr>))"

text \<open>
  Modelled from the spec: \<^verbatim>\<open>Account.update\<close> of \<^verbatim>\<open>service/models.py\<close> (section 4.1: it
  requires the id to be set, persists the entity's fields as a full replace of the row
  with that id, and fails if no such row exists).
\<close>

definition Account_update :: "account \<Rightarrow> store \<Rightarrow> exn + store" where
  "Account_update a db =
     (if id' a = JNull
      then Inl (DataValidationError ''Update called with empty ID field'')
      else if list_ex (\<lambda>r. id' r = id' a) (rows db)
      then Inr (db\<lparr>rows := map (\<lambda>r. if id' r = id' a then a else r) (rows db)\<rparr>)
      else Inl (OtherError ''no row to update''))"

text \<open>
  Modelled from the spec: \<^verbatim>\<open>Account.delete\<close> of \<^verbatim>\<open>service/models.py\<close> (section 4.1: it
  removes the row matching the id, a no-op if absent).
\<close>

definition Account_delete :: "account \<Rightarrow> store \<Rightarrow> store" where
  "Account_delete a db = db\<lparr>rows := filter (\<lambda>r. id' r \<noteq> id' a) (rows db)\<rparr>"

subsection \<open>The error translator\<close>

text \<open>
  Modelled from the spec: the body of an error response built by
  \<^verbatim>\<open>service/common/error_handlers.py\<close> (section 4.3: the machine status, a short error
  label and a human message).
\<close>

definition error_response :: "nat \<Rightarrow> string \<Rightarrow> string \<Rightarrow> response" where
  "error_response code label message =
     make_response
       (Json (JObj [(''status'', JInt (int code)), (''error'', JStr label),
                    (''message'', JStr message)]))
       code []"

text \<open>
  Modelled from the spec: \<^verbatim>\<open>not_found\<close> of \<^verbatim>\<open>service/common/error_handlers.py\<close>
  (section 4.3: a 404 body).
\<close>

definition not_found :: "string \<Rightarrow> response" where
  "not_found message = error_response HTTP_404_NOT_FOUND ''Not Found'' message"

text \<open>
  Modelled from the spec: \<^verbatim>\<open>request_validation_error\<close> of
  \<^verbatim>\<open>service/common/error_handlers.py\<close> (section 4.3: a 400 body carrying the validation
  detail).
\<close>

definition request_validation_error :: "string \<Rightarrow> response" where
  "request_validation_error message =
     error_response HTTP_400_BAD_REQUEST ''Bad Request'' message"

text \<open>
  Modelled from the spec: the handlers that \<^verbatim>\<open>service/common/error_handlers.py\<close>
  registers with the application (sections 4.3 and 7): a validation error becomes a
  400, an HTTP exception a response with its own status (415 for the unsupported media
  type), and any failure that is not handled surfaces as a generic 500.
\<close>

definition error_handlers :: "exn \<Rightarrow> response" where
  "error_handlers e =
     (case e of
        DataValidationError m \<Rightarrow> request_validation_error m
      | HTTPException code m \<Rightarrow>
          error_response code
            (if code = HTTP_415_UNSUPPORTED_MEDIA_TYPE then ''Unsupported media type''
             else if code = HTTP_404_NOT_FOUND then ''Not Found''
             else if code = HTTP_400_BAD_REQUEST then ''Bad Request''
             else ''Error'') m
      | _ \<Rightarrow> error_response HTTP_500_INTERNAL_SERVER_ERROR ''Internal Server Error''
               ''Internal Server Error'')"

section \<open>The request handlers of \<^verbatim>\<open>service/routes.py\<close>\<close>

text \<open>
  A handler takes the request and the store and returns the response, or the exception
  it raised, together with the store it leaves behind. Calls of the logger have no
  effect on either and are left out.
\<close>

type_synonym outcome = "(exn + response) \<times> store"

text \<open>
  \<^verbatim>\<open>url_for("read_account", account_id=..., _external=True)\<close>: the route of
  \<open>read_account\<close> is \<^verbatim>\<open>/accounts/<int:account_id>\<close>.
\<close>

definition url_for_read_account :: "request \<Rightarrow> int \<Rightarrow> string" where
  "url_for_read_account req account_id = url_root req @ ''/accounts/'' @ str_int account_id"

text \<open>\<^verbatim>\<open>check_content_type\<close>: returns, or aborts with 415.\<close>

definition check_content_type :: "string \<Rightarrow> request \<Rightarrow> exn + unit" where
  "check_content_type media_type req =
     (case content_type req of
        Some ct \<Rightarrow>
          if ct \<noteq> [] \<and> ct = media_type then Inr ()
          else Inl (HTTPException HTTP_415_UNSUPPORTED_MEDIA_TYPE
                      (''Content-Type must be '' @ media_type))
      | None \<Rightarrow>
          Inl (HTTPException HTTP_415_UNSUPPORTED_MEDIA_TYPE
                 (''Content-Type must be '' @ media_type)))"

text \<open>\<^verbatim>\<open>create_accounts\<close>, the handler of \<^verbatim>\<open>POST /accounts\<close>.\<close>

definition create_accounts :: "request \<Rightarrow> store \<Rightarrow> outcome" where
  "create_accounts req db =
     (case check_content_type ''application/json'' req of
        Inl e \<Rightarrow> (Inl e, db)
      | Inr _ \<Rightarrow>
          (case get_json req of
             Inl e \<Rightarrow> (Inl e, db)
           | Inr data \<Rightarrow>
               (case Account_deserialize (today req) data Account_new of
                  Inl e \<Rightarrow> (Inl e, db)
                | Inr account \<Rightarrow>
                    (case Account_create account db of
                       (account', db') \<Rightarrow>
                         (case id' account' of
                            JInt i \<Rightarrow>
                              (Inr (make_response (Json (Account_serialize account'))
                                      HTTP_201_CREATED
                                      [(''Location'', url_for_read_account req i)]),
                               db')
                          | _ \<Rightarrow> (Inl (OtherError ''BuildError''), db'))))))"

text \<open>\<^verbatim>\<open>list_accounts\<close>, the handler of \<^verbatim>\<open>GET /accounts\<close>.\<close>

definition list_accounts :: "request \<Rightarrow> store \<Rightarrow> outcome" where
  "list_accounts req db =
     (let accounts = Account_all db;
          account_sers = map Account_serialize accounts
      in (Inr (make_response (Json (JList account_sers)) HTTP_200_OK []), db))"

text \<open>\<^verbatim>\<open>read_account\<close>, the handler of \<^verbatim>\<open>GET /accounts/<int:account_id>\<close>.\<close>

definition read_account :: "int \<Rightarrow> request \<Rightarrow> store \<Rightarrow> outcome" where
  "read_account account_id req db =
     (case Account_find account_id db of
        None \<Rightarrow>
          (Inr (not_found (''Account '' @ str_int account_id @ '' does not exist.'')), db)
      | Some account \<Rightarrow>
          (Inr (make_response (Json (Account_serialize account)) HTTP_200_OK []), db))"

text \<open>
  Python's \<^verbatim>\<open>==\<close> between the value of an \<^verbatim>\<open>id\<close> attribute and an integer, as in
  \<^verbatim>\<open>account_found.id == account_id\<close>: integers are compared by value, \<^verbatim>\<open>True\<close> and
  \<^verbatim>\<open>False\<close> are the integers 1 and 0, and \<^verbatim>\<open>None\<close>, a string, a list or a dict is
  never equal to an integer.
\<close>

definition py_eq_int :: "json \<Rightarrow> int \<Rightarrow> bool" where
  "py_eq_int v i =
     (case v of
        JInt j \<Rightarrow> j = i
      | JBool b \<Rightarrow> (if b then 1 else 0) = i
      | _ \<Rightarrow> False)"

text \<open>\<^verbatim>\<open>update_account\<close>, the handler of \<^verbatim>\<open>PUT /accounts/<int:account_id>\<close>.\<close>

definition update_account :: "int \<Rightarrow> request \<Rightarrow> store \<Rightarrow> outcome" where
  "update_account account_id req db =
     (case Account_find account_id db of
        None \<Rightarrow>
          (Inr (not_found (''Account '' @ str_int account_id @ '' does not exist.'')), db)
      | Some account_found \<Rightarrow>
          (case get_json req of
             Inl e \<Rightarrow> (Inl e, db)
           | Inr data \<Rightarrow>
               (case Account_deserialize (today req) data account_found of
                  Inl e \<Rightarrow> (Inl e, db)
                | Inr account_found' \<Rightarrow>
                    if \<not> py_eq_int (id' account_found') account_id
                    then (Inr (request_validation_error ''ID mismatch''), db)
                    else
                      (case Account_update account_found' db of
                         Inl e \<Rightarrow> (Inl e, db)
                       | Inr db' \<Rightarrow>
                           (Inr (make_response (Json (Account_serialize account_found'))
                                   HTTP_200_OK []),
                            db')))))"

text \<open>\<^verbatim>\<open>delete_account\<close>, the handler of \<^verbatim>\<open>DELETE /accounts/<int:account_id>\<close>.\<close>

definition delete_account :: "int \<Rightarrow> request \<Rightarrow> store \<Rightarrow> outcome" where
  "delete_account account_id req db =
     (let db' = (case Account_find account_id db of
                   Some account_found \<Rightarrow> Account_delete account_found db
                 | None \<Rightarrow> db)
      in (Inr (make_response (Text []) HTTP_204_NO_CONTENT []), db'))"

subsection \<open>The application\<close>

text \<open>
  The routes of the application. The converter of \<^verbatim>\<open><int:account_id>\<close> matches a
  sequence of digits only, so a path with a negative id matches no route and the router
  raises the framework's 404 without calling a handler.
\<close>

datatype route =
    POST_accounts
  | GET_accounts
  | GET_account int
  | PUT_account int
  | DELETE_account int

definition int_converter ::
  "int \<Rightarrow> (int \<Rightarrow> request \<Rightarrow> store \<Rightarrow> outcome) \<Rightarrow> request \<Rightarrow> store \<Rightarrow> outcome" where
  "int_converter account_id view req db =
     (if 0 \<le> account_id then view account_id req db
      else (Inl (HTTPException HTTP_404_NOT_FOUND
                   ''The requested URL was not found on the server.''), db))"

definition dispatch :: "route \<Rightarrow> request \<Rightarrow> store \<Rightarrow> outcome" where
  "dispatch rt req db =
     (case rt of
        POST_accounts \<Rightarrow> create_accounts req db
      | GET_accounts \<Rightarrow> list_accounts req db
      | GET_account account_id \<Rightarrow> int_converter account_id read_account req db
      | PUT_account account_id \<Rightarrow> int_converter account_id update_account req db
      | DELETE_account account_id \<Rightarrow> int_converter account_id delete_account req db)"

text \<open>
  What a client receives: the response of the handler, or the translation of the
  exception that was raised.
\<close>

definition app :: "route \<Rightarrow> request \<Rightarrow> store \<Rightarrow> response \<times> store" where
  "app rt req db =
     (case dispatch rt req db of
        (Inl e, db') \<Rightarrow> (error_handlers e, db')
      | (Inr resp, db') \<Rightarrow> (resp, db'))"

text \<open>A sequence of requests, each served on the store the one before left.\<close>

fun serve :: "(route \<times> request) list \<Rightarrow> store \<Rightarrow> response list \<times> store" where
  "serve [] db = ([], db)"
| "serve ((rt, req) # rest) db =
     (case app rt req db of
        (resp, db') \<Rightarrow> (case serve rest db' of (resps, db'') \<Rightarrow> (resp # resps, db'')))"

text \<open>
  The id a client reads from the JSON body of a response, as the tests do with
  \<^verbatim>\<open>response.get_json()["id"]\<close>.
\<close>

definition returned_id :: "response \<Rightarrow> int option" where
  "returned_id r =
     (case body r of
        Json (JObj kvs) \<Rightarrow> (case json_get ''id'' kvs of Some (JInt i) \<Rightarrow> Some i | _ \<Rightarrow> None)
      | _ \<Rightarrow> None)"

section \<open>Example data\<close>

text \<open>
  The scenario of section 8 of the specification: the body of Joe's account, a request
  that carries a JSON body, and the store after Joe's account was created in the empty
  store.
\<close>

definition joe :: "(string \<times> json) list" where
  "joe = [(''name'', JStr ''Joe''), (''email'', JStr ''joe@x.com''),
          (''address'', JStr ''1 Main''), (''phone_number'', JStr ''555-1212'')]"

definition json_request :: "json \<Rightarrow> request" where
  "json_request data = \<lparr>content_type = Some ''application/json'', json_body = Inr data,
                         url_root = ''http://localhost'', today = ''2026-11-04''\<rparr>"

definition joe_account :: account where
  "joe_account = \<lparr>id' = JInt 1, name = ''Joe'', email = ''joe@x.com'', address = ''1 Main'',
                    phone_number = ''555-1212'', date_joined = ''2026-11-04''\<rparr>"

definition joe_store :: store where
  "joe_store = snd (app POST_accounts (json_request (JObj joe)) empty_store)"

section \<open>Basic facts\<close>

lemmas status_defs = HTTP_200_OK_def HTTP_201_CREATED_def HTTP_204_NO_CONTENT_def
  HTTP_400_BAD_REQUEST_def HTTP_404_NOT_FOUND_def HTTP_415_UNSUPPORTED_MEDIA_TYPE_def
  HTTP_500_INTERNAL_SERVER_ERROR_def

lemmas eval_defs = app_def dispatch_def int_converter_def create_accounts_def
  list_accounts_def read_account_def update_account_def delete_account_def
  check_content_type_def get_json_def py_eq_int_def
  Account_deserialize_def Account_serialize_def Account_create_def Account_update_def
  Account_delete_def Account_find_def Account_all_def Account_new_def exn_bind_def
  required_text_def optional_date_def optional_id_def json_get_def
  error_handlers_def error_response_def not_found_def request_validation_error_def
  make_response_def url_for_read_account_def str_int_def digit_char_def
  empty_store_def joe_def json_request_def status_defs Let_def

lemma joe_store_eq: "joe_store = \<lparr>rows = [joe_account], next_id = 2\<rparr>"
  by (simp add: joe_store_def joe_account_def eval_defs)

subsection \<open>Lookup\<close>

lemma Account_find_None:
  "Account_find i db = None \<longleftrightarrow> JInt i \<notin> id' ` set (rows db)"
  by (auto simp: Account_find_def find_None_iff image_iff)

lemma Account_find_Some:
  "Account_find i db = Some a \<Longrightarrow> a \<in> set (rows db) \<and> id' a = JInt i"
  by (auto simp: Account_find_def find_Some_iff)

lemma Account_find_exists:
  assumes "JInt i \<in> id' ` set (rows db)"
  obtains a where "Account_find i db = Some a" "a \<in> set (rows db)" "id' a = JInt i"
proof -
  from assms have "Account_find i db \<noteq> None" by (simp add: Account_find_None)
  then obtain a where "Account_find i db = Some a" by blast
  with Account_find_Some[OF this] that show thesis by blast
qed

subsection \<open>The rows of a store that satisfies its invariant\<close>

lemma store_inv_empty: "store_inv empty_store"
  by (simp add: store_inv_def empty_store_def)

lemma store_inv_row:
  assumes "store_inv db" and "a \<in> set (rows db)"
  obtains i where "id' a = JInt i" "1 \<le> i" "i < next_id db"
  using assms by (cases "id' a") (auto simp: store_inv_def list_all_iff)

lemma store_inv_fresh:
  assumes "store_inv db"
  shows "JInt (next_id db) \<notin> id' ` set (rows db)"
proof
  assume "JInt (next_id db) \<in> id' ` set (rows db)"
  then obtain a where a: "a \<in> set (rows db)" "id' a = JInt (next_id db)"
    by auto
  from store_inv_row[OF assms a(1)] a(2) show False
    by auto
qed

text \<open>
  In a store that satisfies its invariant every id is one that the route admits, so the restriction of a
  theorem to the ids the route admits excludes no stored account.
\<close>

lemma store_inv_admitted:
  assumes "store_inv db" and "JInt i \<in> id' ` set (rows db)"
  shows "0 \<le> i"
proof -
  from assms(2) obtain a where a: "a \<in> set (rows db)" "id' a = JInt i"
    by auto
  from assms(1) a(1) obtain j where "id' a = JInt j" "1 \<le> j" "j < next_id db"
    by (rule store_inv_row)
  with a(2) show ?thesis by simp
qed

lemma admitted_id:
  assumes "0 \<le> i \<or> store_inv db" and "JInt i \<in> id' ` set (rows db)"
  shows "0 \<le> i"
  using assms store_inv_admitted by blast

subsection \<open>Error responses\<close>

lemma status_not_found: "status_code (not_found m) = 404"
  by (simp add: not_found_def error_response_def make_response_def status_defs)

lemma status_validation: "status_code (request_validation_error m) = 400"
  by (simp add: request_validation_error_def error_response_def make_response_def status_defs)

lemma error_handlers_validation:
  "error_handlers (DataValidationError m) = request_validation_error m"
  by (simp add: error_handlers_def)

lemma status_error_handlers_http:
  "status_code (error_handlers (HTTPException c m)) = c"
  by (simp add: error_handlers_def error_response_def make_response_def)

subsection \<open>The application at each route\<close>

lemma app_POST: "app POST_accounts req db =
   (case create_accounts req db of
      (Inl e, db') \<Rightarrow> (error_handlers e, db') | (Inr r, db') \<Rightarrow> (r, db'))"
  by (simp add: app_def dispatch_def)

lemma app_GET_all: "app GET_accounts req db =
   (case list_accounts req db of
      (Inl e, db') \<Rightarrow> (error_handlers e, db') | (Inr r, db') \<Rightarrow> (r, db'))"
  by (simp add: app_def dispatch_def)

lemma app_GET: "0 \<le> i \<Longrightarrow> app (GET_account i) req db =
   (case read_account i req db of
      (Inl e, db') \<Rightarrow> (error_handlers e, db') | (Inr r, db') \<Rightarrow> (r, db'))"
  by (simp add: app_def dispatch_def int_converter_def)

lemma app_PUT: "0 \<le> i \<Longrightarrow> app (PUT_account i) req db =
   (case update_account i req db of
      (Inl e, db') \<Rightarrow> (error_handlers e, db') | (Inr r, db') \<Rightarrow> (r, db'))"
  by (simp add: app_def dispatch_def int_converter_def)

lemma app_DELETE: "0 \<le> i \<Longrightarrow> app (DELETE_account i) req db =
   (case delete_account i req db of
      (Inl e, db') \<Rightarrow> (error_handlers e, db') | (Inr r, db') \<Rightarrow> (r, db'))"
  by (simp add: app_def dispatch_def int_converter_def)

text \<open>A path with a negative id is answered by the router, and the store is not touched.\<close>

lemma app_negative_id:
  assumes "i < 0" and "rt \<in> {GET_account i, PUT_account i, DELETE_account i}"
  shows "app rt req db =
           (error_handlers (HTTPException HTTP_404_NOT_FOUND
              ''The requested URL was not found on the server.''), db)"
    and "status_code (fst (app rt req db)) = 404"
    and "snd (app rt req db) = db"
  using assms
  by (auto simp: app_def dispatch_def int_converter_def status_error_handlers_http
      HTTP_404_NOT_FOUND_def)

subsection \<open>Deserialization\<close>

lemma json_get_None: "json_get k kvs = None \<longleftrightarrow> k \<notin> fst ` set kvs"
  by (simp add: json_get_def map_of_eq_None_iff)

lemma required_text_Inl:
  "required_text k kvs = Inl e \<Longrightarrow> \<exists>m. e = DataValidationError m"
  by (auto simp: required_text_def split: option.splits json.splits)

lemma required_text_missing:
  "k \<notin> fst ` set kvs \<Longrightarrow>
   required_text k kvs = Inl (DataValidationError (''Invalid Account: missing '' @ k))"
  using json_get_None[of k kvs] by (simp add: required_text_def)

lemma optional_date_Inl:
  "optional_date now kvs = Inl e \<Longrightarrow> \<exists>m. e = DataValidationError m"
  by (auto simp: optional_date_def split: option.splits json.splits)

lemma deserialize_Inr_iff:
  "Account_deserialize now (JObj kvs) a = Inr b \<longleftrightarrow>
     required_text ''name'' kvs = Inr (name b) \<and>
     required_text ''email'' kvs = Inr (email b) \<and>
     required_text ''address'' kvs = Inr (address b) \<and>
     required_text ''phone_number'' kvs = Inr (phone_number b) \<and>
     optional_date now kvs = Inr (date_joined b) \<and>
     optional_id (id' a) kvs = id' b"
  by (cases b) (auto simp: Account_deserialize_def exn_bind_def split: sum.splits)

lemma deserialize_Inl:
  "Account_deserialize now (JObj kvs) a = Inl e \<Longrightarrow> \<exists>m. e = DataValidationError m"
  by (auto simp: Account_deserialize_def exn_bind_def split: sum.splits
      dest: required_text_Inl optional_date_Inl)

text \<open>
  Whether a body deserializes, and with which error, does not depend on the entity it
  is deserialized onto; only the resulting id does.
\<close>

lemma deserialize_onto:
  "Account_deserialize now (JObj kvs) a =
     (case Account_deserialize now (JObj kvs) Account_new of
        Inl e \<Rightarrow> Inl e
      | Inr b \<Rightarrow> Inr (b\<lparr>id' := optional_id (id' a) kvs\<rparr>))"
  by (auto simp: Account_deserialize_def exn_bind_def split: sum.splits)


lemma optional_id_absent: "''id'' \<notin> fst ` set kvs \<Longrightarrow> optional_id cur kvs = cur"
  using json_get_None[of "''id''" kvs] by (simp add: optional_id_def)

section \<open>Updating an account\<close>

text \<open>
  Claim C1. A \<^verbatim>\<open>PUT /accounts/{id}\<close> whose path id matches no stored account is answered
  with 404 and leaves the store as it was, whatever the request and its body are, so
  also when the body carries an id that differs from the path id: in the handler the
  lookup and its 404 come before the body is read and the ids are compared. Hence a 400
  can only be the answer for an id that is in the store.
\<close>

theorem update_account_not_found_first:
  "(JInt i \<notin> id' ` set (rows db) \<longrightarrow>
      status_code (fst (app (PUT_account i) req db)) = 404 \<and>
      snd (app (PUT_account i) req db) = db \<and>
      update_account i req db =
        (Inr (not_found (''Account '' @ str_int i @ '' does not exist.'')), db) \<and>
      (0 \<le> i \<longrightarrow>
         app (PUT_account i) req db =
           (not_found (''Account '' @ str_int i @ '' does not exist.''), db))) \<and>
   (status_code (fst (app (PUT_account i) req db)) = 400 \<longrightarrow>
      JInt i \<in> id' ` set (rows db))"
proof -
  have handler: "update_account i req db =
        (Inr (not_found (''Account '' @ str_int i @ '' does not exist.'')), db)"
    if "JInt i \<notin> id' ` set (rows db)"
  proof -
    from that have "Account_find i db = None" by (simp add: Account_find_None)
    then show ?thesis by (simp add: update_account_def)
  qed
  have miss: "status_code (fst (app (PUT_account i) req db)) = 404 \<and>
              snd (app (PUT_account i) req db) = db"
    if h: "JInt i \<notin> id' ` set (rows db)"
  proof (cases "0 \<le> i")
    case True
    then show ?thesis
      by (simp add: app_PUT handler[OF h] status_not_found)
  next
    case False
    then have "i < 0" by simp
    then show ?thesis
      using app_negative_id(2,3)[of i "PUT_account i" req db] by simp
  qed
  show ?thesis
  proof (intro conjI impI)
    assume h: "JInt i \<notin> id' ` set (rows db)"
    show "status_code (fst (app (PUT_account i) req db)) = 404"
      and "snd (app (PUT_account i) req db) = db"
      using miss[OF h] by simp_all
    show "update_account i req db =
        (Inr (not_found (''Account '' @ str_int i @ '' does not exist.'')), db)"
      by (rule handler[OF h])
    assume "0 \<le> i"
    then show "app (PUT_account i) req db =
           (not_found (''Account '' @ str_int i @ '' does not exist.''), db)"
      by (simp add: app_PUT handler[OF h])
  next
    assume s: "status_code (fst (app (PUT_account i) req db)) = 400"
    show "JInt i \<in> id' ` set (rows db)"
    proof (rule ccontr)
      assume "JInt i \<notin> id' ` set (rows db)"
      from miss[OF this] s show False by simp
    qed
  qed
qed

theorem update_account_not_found_first_witness:
  "JInt 2 \<notin> id' ` set (rows joe_store) \<and>
   status_code (fst (app (PUT_account 2) (json_request (JObj ((''id'', JInt 3) # joe)))
                       joe_store)) = 404 \<and>
   snd (app (PUT_account 2) (json_request (JObj ((''id'', JInt 3) # joe))) joe_store) =
     joe_store \<and>
   status_code (fst (app (PUT_account 1) (json_request (JObj ((''id'', JInt 3) # joe)))
                       joe_store)) = 400 \<and>
   JInt 1 \<in> id' ` set (rows joe_store)"
proof -
  have h: "JInt 2 \<notin> id' ` set (rows joe_store)"
    by (simp add: joe_store_eq joe_account_def)
  have s: "status_code (fst (app (PUT_account 1)
             (json_request (JObj ((''id'', JInt 3) # joe))) joe_store)) = 400"
    by (simp add: joe_store_eq joe_account_def eval_defs)
  from update_account_not_found_first
         [where db = joe_store and i = 2
            and req = "json_request (JObj ((''id'', JInt 3) # joe))"] h
       update_account_not_found_first
         [where db = joe_store and i = 1
            and req = "json_request (JObj ((''id'', JInt 3) # joe))"] s
  show ?thesis by blast
qed




text \<open>
  Claim C9. When the account exists (the id being one the route admits, as every id of
  a store that satisfies its invariant is) and the body is a valid representation with
  no id member, the entity keeps the id it was found under, the comparison with the path id
  succeeds, and the update is accepted: the answer is 200 with the updated entity, and
  the row is replaced.
\<close>

theorem update_account_without_id:
  assumes route: "0 \<le> i \<or> store_inv db"
    and ex: "JInt i \<in> id' ` set (rows db)"
    and body: "json_body req = Inr (JObj kvs)"
    and noid: "''id'' \<notin> fst ` set kvs"
    and ok: "Account_deserialize (today req) (JObj kvs) Account_new = Inr a"
  shows "app (PUT_account i) req db =
           (make_response (Json (Account_serialize (a\<lparr>id' := JInt i\<rparr>))) HTTP_200_OK [],
            db\<lparr>rows := map (\<lambda>r. if id' r = JInt i then a\<lparr>id' := JInt i\<rparr> else r) (rows db)\<rparr>) \<and>
         status_code (fst (app (PUT_account i) req db)) = 200"
proof -
  from route ex have admitted: "0 \<le> i"
    by (rule admitted_id)
  from ex obtain a0 where f: "Account_find i db = Some a0" and a0: "id' a0 = JInt i"
    by (rule Account_find_exists)
  have gj: "get_json req = Inr (JObj kvs)"
    by (simp add: get_json_def body)
  have d: "Account_deserialize (today req) (JObj kvs) a0 = Inr (a\<lparr>id' := JInt i\<rparr>)"
    by (simp add: deserialize_onto[of _ _ a0] ok optional_id_absent[OF noid] a0)
  from ex have le: "list_ex (\<lambda>r. id' r = JInt i) (rows db)"
    by (auto simp: list_ex_iff)
  have u: "Account_update (a\<lparr>id' := JInt i\<rparr>) db =
             Inr (db\<lparr>rows := map (\<lambda>r. if id' r = JInt i then a\<lparr>id' := JInt i\<rparr> else r) (rows db)\<rparr>)"
    by (simp add: Account_update_def le)
  have r: "app (PUT_account i) req db =
           (make_response (Json (Account_serialize (a\<lparr>id' := JInt i\<rparr>))) HTTP_200_OK [],
            db\<lparr>rows := map (\<lambda>r. if id' r = JInt i then a\<lparr>id' := JInt i\<rparr> else r) (rows db)\<rparr>)"
    by (simp add: app_PUT[OF admitted] update_account_def f gj d u py_eq_int_def)
  then show ?thesis by (simp add: make_response_def HTTP_200_OK_def)
qed

theorem update_account_without_id_witness:
  "((0::int) \<le> 1 \<or> store_inv joe_store) \<and>
   JInt 1 \<in> id' ` set (rows joe_store) \<and>
   json_body (json_request (JObj ((''name'', JStr ''Joe Foo'') # tl joe))) =
     Inr (JObj ((''name'', JStr ''Joe Foo'') # tl joe)) \<and>
   ''id'' \<notin> fst ` set ((''name'', JStr ''Joe Foo'') # tl joe) \<and>
   Account_deserialize (today (json_request (JObj ((''name'', JStr ''Joe Foo'') # tl joe))))
     (JObj ((''name'', JStr ''Joe Foo'') # tl joe)) Account_new =
     Inr (joe_account\<lparr>id' := JNull, name := ''Joe Foo''\<rparr>) \<and>
   app (PUT_account 1) (json_request (JObj ((''name'', JStr ''Joe Foo'') # tl joe))) joe_store =
     (make_response (Json (Account_serialize (joe_account\<lparr>name := ''Joe Foo''\<rparr>))) 200 [],
      \<lparr>rows = [joe_account\<lparr>name := ''Joe Foo''\<rparr>], next_id = 2\<rparr>)"
proof -
  have admitted: "(0::int) \<le> 1 \<or> store_inv joe_store" by simp
  have ex: "JInt 1 \<in> id' ` set (rows joe_store)"
    by (simp add: joe_store_eq joe_account_def)
  have body: "json_body (json_request (JObj ((''name'', JStr ''Joe Foo'') # tl joe))) =
     Inr (JObj ((''name'', JStr ''Joe Foo'') # tl joe))"
    by (simp add: json_request_def)
  have noid: "''id'' \<notin> fst ` set ((''name'', JStr ''Joe Foo'') # tl joe)"
    by (simp add: joe_def)
  have ok: "Account_deserialize (today (json_request (JObj ((''name'', JStr ''Joe Foo'') # tl joe))))
     (JObj ((''name'', JStr ''Joe Foo'') # tl joe)) Account_new =
     Inr (joe_account\<lparr>id' := JNull, name := ''Joe Foo''\<rparr>)"
    by (simp add: eval_defs joe_account_def)
  from update_account_without_id[OF admitted ex body noid ok] admitted ex body noid ok
  show ?thesis by (simp add: joe_store_eq joe_account_def HTTP_200_OK_def)
qed

section \<open>Creating an account\<close>

lemma find_appended:
  "JInt i \<notin> id' ` set xs \<Longrightarrow> id' a = JInt i \<Longrightarrow>
   List.find (\<lambda>r. id' r = JInt i) (xs @ [a]) = Some a"
  by (induction xs) auto

lemma create_accounts_success:
  assumes ct: "content_type req = Some ''application/json''"
    and body: "json_body req = Inr data"
    and ok: "Account_deserialize (today req) data Account_new = Inr a"
  shows "app POST_accounts req db =
           (make_response (Json (Account_serialize (a\<lparr>id' := JInt (next_id db)\<rparr>)))
              HTTP_201_CREATED [(''Location'', url_for_read_account req (next_id db))],
            db\<lparr>rows := rows db @ [a\<lparr>id' := JInt (next_id db)\<rparr>], next_id := next_id db + 1\<rparr>)"
proof -
  have c: "check_content_type ''application/json'' req = Inr ()"
    by (simp add: check_content_type_def ct)
  have gj: "get_json req = Inr data"
    by (simp add: get_json_def body)
  show ?thesis
    by (simp add: app_POST create_accounts_def c gj ok Account_create_def Let_def)
qed

text \<open>
  Claim C3. A \<^verbatim>\<open>POST /accounts\<close> with the content type \<^verbatim>\<open>application/json\<close> and a body
  that deserializes into an account is answered with 201, the serialized created entity
  (carrying the id the store assigned) and a \<^verbatim>\<open>Location\<close> header with the URL of
  \<open>read_account\<close> for that id; a \<^verbatim>\<open>GET /accounts/{id}\<close> with the returned id, served
  next, is answered with 200 and the same body.
\<close>

theorem create_then_read:
  assumes inv: "store_inv db"
    and ct: "content_type req = Some ''application/json''"
    and body: "json_body req = Inr data"
    and ok: "Account_deserialize (today req) data Account_new = Inr a"
  shows "status_code (fst (app POST_accounts req db)) = 201 \<and>
         body (fst (app POST_accounts req db)) =
           Json (Account_serialize (a\<lparr>id' := JInt (next_id db)\<rparr>)) \<and>
         headers (fst (app POST_accounts req db)) =
           [(''Location'', url_root req @ ''/accounts/'' @ str_int (next_id db))] \<and>
         returned_id (fst (app POST_accounts req db)) = Some (next_id db) \<and>
         status_code (fst (app (GET_account (next_id db)) req'
                            (snd (app POST_accounts req db)))) = 200 \<and>
         body (fst (app (GET_account (next_id db)) req' (snd (app POST_accounts req db)))) =
           body (fst (app POST_accounts req db))"
proof -
  let ?a = "a\<lparr>id' := JInt (next_id db)\<rparr>"
  let ?db = "db\<lparr>rows := rows db @ [?a], next_id := next_id db + 1\<rparr>"
  have p: "app POST_accounts req db =
           (make_response (Json (Account_serialize ?a))
              HTTP_201_CREATED [(''Location'', url_for_read_account req (next_id db))], ?db)"
    by (rule create_accounts_success[OF ct body ok])
  from inv have admitted: "0 \<le> next_id db"
    by (simp add: store_inv_def)
  have "List.find (\<lambda>r. id' r = JInt (next_id db)) (rows db @ [?a]) = Some ?a"
    by (rule find_appended) (use store_inv_fresh[OF inv] in simp_all)
  then have f: "Account_find (next_id db) ?db = Some ?a"
    by (simp add: Account_find_def)
  have g: "app (GET_account (next_id db)) req' ?db =
             (make_response (Json (Account_serialize ?a)) HTTP_200_OK [], ?db)"
    by (simp add: app_GET[OF admitted] read_account_def f)
  have rid: "returned_id (make_response (Json (Account_serialize ?a)) HTTP_201_CREATED
               [(''Location'', url_for_read_account req (next_id db))]) = Some (next_id db)"
    by (simp add: returned_id_def make_response_def Account_serialize_def json_get_def)
  show ?thesis
    unfolding p fst_conv snd_conv g rid
    by (simp add: make_response_def url_for_read_account_def status_defs)
qed

theorem create_then_read_witness:
  "store_inv empty_store \<and>
   content_type (json_request (JObj joe)) = Some ''application/json'' \<and>
   json_body (json_request (JObj joe)) = Inr (JObj joe) \<and>
   Account_deserialize (today (json_request (JObj joe))) (JObj joe) Account_new =
     Inr (joe_account\<lparr>id' := JNull\<rparr>) \<and>
   fst (app POST_accounts (json_request (JObj joe)) empty_store) =
     \<lparr>status_code = 201, body = Json (Account_serialize joe_account),
      headers = [(''Location'', ''http://localhost/accounts/1'')]\<rparr> \<and>
   fst (app (GET_account 1) (json_request JNull)
          (snd (app POST_accounts (json_request (JObj joe)) empty_store))) =
     \<lparr>status_code = 200, body = Json (Account_serialize joe_account), headers = []\<rparr>"
proof -
  have ct: "content_type (json_request (JObj joe)) = Some ''application/json''"
    by (simp add: json_request_def)
  have body: "json_body (json_request (JObj joe)) = Inr (JObj joe)"
    by (simp add: json_request_def)
  have ok: "Account_deserialize (today (json_request (JObj joe))) (JObj joe) Account_new =
     Inr (joe_account\<lparr>id' := JNull\<rparr>)"
    by (simp add: eval_defs joe_account_def)
  have n: "next_id empty_store = 1" "url_root (json_request (JObj joe)) = ''http://localhost''"
    "str_int 1 = ''1''"
    by (simp_all add: empty_store_def json_request_def str_int_def digit_char_def)
  have h: "headers (fst (app (GET_account 1) (json_request JNull)
          (snd (app POST_accounts (json_request (JObj joe)) empty_store)))) = []"
    by (simp add: joe_store_def[symmetric] joe_store_eq eval_defs joe_account_def)
  from create_then_read[OF store_inv_empty ct body ok, of "json_request JNull"] store_inv_empty ct body ok h
  show ?thesis
    by (simp add: n joe_account_def)
qed

text \<open>
  Claim C4. A \<^verbatim>\<open>POST /accounts\<close> whose \<^verbatim>\<open>Content-Type\<close> header is not exactly
  \<^verbatim>\<open>application/json\<close> (absent, \<^verbatim>\<open>text/html\<close>, or with a parameter such as a charset)
  is answered with 415 and the message naming the required content type. The answer is
  the same whatever the body is, and the store is left as it was: the check precedes
  the reading of the body and every call of the entity.
\<close>

theorem create_accounts_unsupported_media_type:
  assumes "content_type req \<noteq> Some ''application/json''"
  shows "app POST_accounts req db =
           (error_response 415 ''Unsupported media type''
              ''Content-Type must be application/json'', db) \<and>
         status_code (fst (app POST_accounts req db)) = 415"
proof -
  have "check_content_type ''application/json'' req =
          Inl (HTTPException HTTP_415_UNSUPPORTED_MEDIA_TYPE
                 ''Content-Type must be application/json'')"
    using assms by (cases "content_type req") (simp_all add: check_content_type_def)
  then have "app POST_accounts req db =
           (error_response 415 ''Unsupported media type''
              ''Content-Type must be application/json'', db)"
    by (simp add: app_POST create_accounts_def error_handlers_def status_defs)
  then show ?thesis
    by (simp add: error_response_def make_response_def)
qed

theorem create_accounts_unsupported_media_type_witness:
  "content_type ((json_request (JObj joe))\<lparr>content_type := Some ''text/html''\<rparr>)
     \<noteq> Some ''application/json'' \<and>
   content_type ((json_request (JObj joe))\<lparr>content_type := None\<rparr>)
     \<noteq> Some ''application/json'' \<and>
   content_type ((json_request (JObj joe))
                   \<lparr>content_type := Some ''application/json; charset=utf-8''\<rparr>)
     \<noteq> Some ''application/json'' \<and>
   status_code (fst (app POST_accounts
      ((json_request (JObj joe))\<lparr>content_type := Some ''text/html''\<rparr>) joe_store)) = 415 \<and>
   status_code (fst (app POST_accounts
      ((json_request (JObj joe))\<lparr>content_type := None\<rparr>) joe_store)) = 415 \<and>
   status_code (fst (app POST_accounts
      ((json_request (JObj joe))\<lparr>content_type := Some ''application/json; charset=utf-8''\<rparr>)
      joe_store)) = 415 \<and>
   snd (app POST_accounts
      ((json_request (JObj joe))\<lparr>content_type := Some ''text/html''\<rparr>) joe_store) = joe_store"
proof -
  have a: "content_type ((json_request (JObj joe))\<lparr>content_type := Some ''text/html''\<rparr>)
     \<noteq> Some ''application/json''"
    by simp
  have b: "content_type ((json_request (JObj joe))\<lparr>content_type := None\<rparr>)
     \<noteq> Some ''application/json''"
    by simp
  have c: "content_type ((json_request (JObj joe))
                   \<lparr>content_type := Some ''application/json; charset=utf-8''\<rparr>)
     \<noteq> Some ''application/json''"
    by simp
  from create_accounts_unsupported_media_type[OF a, of joe_store]
       create_accounts_unsupported_media_type[OF b, of joe_store]
       create_accounts_unsupported_media_type[OF c, of joe_store] a b c
  show ?thesis by (simp add: error_response_def make_response_def)
qed

text \<open>
  Claim C5. A \<^verbatim>\<open>POST /accounts\<close> with the right content type whose JSON body is an
  object without one of the required members (\<^verbatim>\<open>name\<close>, \<^verbatim>\<open>email\<close>, \<^verbatim>\<open>address\<close>,
  \<^verbatim>\<open>phone_number\<close>) is answered with the 400 of a validation error, and no row is
  created: the store is left as it was.
\<close>

theorem create_accounts_missing_field:
  assumes ct: "content_type req = Some ''application/json''"
    and body: "json_body req = Inr (JObj kvs)"
    and req_field: "k \<in> {''name'', ''email'', ''address'', ''phone_number''}"
    and missing: "k \<notin> fst ` set kvs"
  shows "status_code (fst (app POST_accounts req db)) = 400 \<and>
         (\<exists>m. fst (app POST_accounts req db) = request_validation_error m) \<and>
         snd (app POST_accounts req db) = db \<and>
         rows (snd (app POST_accounts req db)) = rows db"
proof -
  have c: "check_content_type ''application/json'' req = Inr ()"
    by (simp add: check_content_type_def ct)
  have gj: "get_json req = Inr (JObj kvs)"
    by (simp add: get_json_def body)
  have "\<exists>e. Account_deserialize (today req) (JObj kvs) Account_new = Inl e"
  proof (cases "Account_deserialize (today req) (JObj kvs) Account_new")
    case (Inr b)
    then have "required_text ''name'' kvs = Inr (name b)"
      "required_text ''email'' kvs = Inr (email b)"
      "required_text ''address'' kvs = Inr (address b)"
      "required_text ''phone_number'' kvs = Inr (phone_number b)"
      by (simp_all add: deserialize_Inr_iff)
    with req_field required_text_missing[OF missing] show ?thesis by auto
  qed simp
  then obtain e where d: "Account_deserialize (today req) (JObj kvs) Account_new = Inl e" ..
  then obtain m where e: "e = DataValidationError m"
    using deserialize_Inl by blast
  have "app POST_accounts req db = (request_validation_error m, db)"
    by (simp add: app_POST create_accounts_def c gj d e error_handlers_validation)
  then show ?thesis
    by (auto simp: status_validation)
qed

theorem create_accounts_missing_field_witness:
  "content_type (json_request (JObj [(''name'', JStr ''x'')])) = Some ''application/json'' \<and>
   json_body (json_request (JObj [(''name'', JStr ''x'')])) = Inr (JObj [(''name'', JStr ''x'')]) \<and>
   ''email'' \<in> {''name'', ''email'', ''address'', ''phone_number''} \<and>
   ''email'' \<notin> fst ` set [(''name'', JStr ''x'')] \<and>
   status_code (fst (app POST_accounts (json_request (JObj [(''name'', JStr ''x'')])) joe_store))
     = 400 \<and>
   snd (app POST_accounts (json_request (JObj [(''name'', JStr ''x'')])) joe_store) = joe_store"
proof -
  have ct: "content_type (json_request (JObj [(''name'', JStr ''x'')])) = Some ''application/json''"
    by (simp add: json_request_def)
  have body: "json_body (json_request (JObj [(''name'', JStr ''x'')])) =
      Inr (JObj [(''name'', JStr ''x'')])"
    by (simp add: json_request_def)
  have k: "''email'' \<in> {''name'', ''email'', ''address'', ''phone_number''}" by simp
  have missing: "''email'' \<notin> fst ` set [(''name'', JStr ''x'')]" by simp
  from create_accounts_missing_field[OF ct body k missing, of joe_store] ct body k missing
  show ?thesis by simp
qed

section \<open>Deleting an account\<close>

text \<open>
  Claim C6, as amended. For every id that the route \<^verbatim>\<open>/accounts/<int:account_id>\<close>
  admits, a non-negative integer, and every store, \<^verbatim>\<open>DELETE /accounts/{id}\<close> is
  answered with 204 and an empty body, whether or not a row with that id exists;
  deleting such an id that is not in the store is not an error and is never answered
  with 404.
\<close>

theorem delete_account_always_204:
  assumes "0 \<le> i"
  shows "fst (app (DELETE_account i) req db) =
           \<lparr>status_code = 204, body = Text [], headers = []\<rparr> \<and>
         status_code (fst (app (DELETE_account i) req db)) = 204"
  by (simp add: app_DELETE[OF assms] delete_account_def make_response_def
      HTTP_204_NO_CONTENT_def Let_def)

theorem delete_account_always_204_witness:
  "(0::int) \<le> 5 \<and> (0::int) \<le> 1 \<and>
   JInt 5 \<notin> id' ` set (rows joe_store) \<and>
   JInt 1 \<in> id' ` set (rows joe_store) \<and>
   fst (app (DELETE_account 5) (json_request JNull) joe_store) =
     \<lparr>status_code = 204, body = Text [], headers = []\<rparr> \<and>
   fst (app (DELETE_account 1) (json_request JNull) joe_store) =
     \<lparr>status_code = 204, body = Text [], headers = []\<rparr>"
proof -
  have a: "(0::int) \<le> 5" and b: "(0::int) \<le> 1"
    by simp_all
  have absent: "JInt 5 \<notin> id' ` set (rows joe_store)"
    and present: "JInt 1 \<in> id' ` set (rows joe_store)"
    by (simp_all add: joe_store_eq joe_account_def)
  from delete_account_always_204[OF a, of "json_request JNull" joe_store]
       delete_account_always_204[OF b, of "json_request JNull" joe_store] absent present
  show ?thesis by simp
qed

text \<open>
  The claim C6 as it was worded, for every id, fails at a negative one: the converter of
  the route does not match it, and the router answers \<^verbatim>\<open>DELETE /accounts/-1\<close> with 404.
\<close>

theorem delete_account_always_204_counterexample:
  "JInt (- 1) \<notin> id' ` set (rows joe_store) \<and>
   status_code (fst (app (DELETE_account (- 1)) (json_request JNull) joe_store)) = 404 \<and>
   status_code (fst (app (DELETE_account (- 1)) (json_request JNull) joe_store)) \<noteq> 204"
  by (simp add: joe_store_eq joe_account_def eval_defs)

text \<open>
  Claim C10. For an id absent from the store, \<^verbatim>\<open>DELETE /accounts/{id}\<close> leaves the store
  as it was: the entity's delete is called only on an account that the lookup found.
\<close>

theorem delete_account_absent_no_mutation:
  assumes "JInt i \<notin> id' ` set (rows db)"
  shows "snd (app (DELETE_account i) req db) = db"
proof (cases "0 \<le> i")
  case True
  from assms have "Account_find i db = None"
    by (simp add: Account_find_None)
  then show ?thesis
    by (simp add: app_DELETE[OF True] delete_account_def)
next
  case False
  then have "i < 0" by simp
  then show ?thesis
    using app_negative_id(3)[of i "DELETE_account i" req db] by simp
qed

theorem delete_account_absent_no_mutation_witness:
  "JInt 5 \<notin> id' ` set (rows joe_store) \<and>
   snd (app (DELETE_account 5) (json_request JNull) joe_store) = joe_store \<and>
   snd (app (DELETE_account 1) (json_request JNull) joe_store) \<noteq> joe_store"
proof -
  have h: "JInt 5 \<notin> id' ` set (rows joe_store)"
    by (simp add: joe_store_eq joe_account_def)
  have d: "snd (app (DELETE_account 1) (json_request JNull) joe_store) \<noteq> joe_store"
    by (simp add: joe_store_eq joe_account_def eval_defs)
  from delete_account_absent_no_mutation[OF h, of "json_request JNull"] h d
  show ?thesis by simp
qed

section \<open>Reading an account\<close>

text \<open>
  Claim C8. For every integer id, \<^verbatim>\<open>GET /accounts/{id}\<close> is answered with 200 and the
  serialization of a stored account with that id when there is one (the id being one
  the route admits, as every id of a store that satisfies its invariant is), and with
  404 when there is none; the store is not changed. In the empty store \<^verbatim>\<open>GET /accounts/0\<close> is answered with 404.
\<close>

theorem read_account_200_or_404:
  "((0 \<le> i \<or> store_inv db) \<and> JInt i \<in> id' ` set (rows db) \<longrightarrow>
      status_code (fst (app (GET_account i) req db)) = 200 \<and>
      (\<exists>a\<in>set (rows db). id' a = JInt i \<and>
         body (fst (app (GET_account i) req db)) = Json (Account_serialize a))) \<and>
   (JInt i \<notin> id' ` set (rows db) \<longrightarrow>
      status_code (fst (app (GET_account i) req db)) = 404 \<and>
      read_account i req db =
        (Inr (not_found (''Account '' @ str_int i @ '' does not exist.'')), db) \<and>
      (0 \<le> i \<longrightarrow>
         fst (app (GET_account i) req db) =
           not_found (''Account '' @ str_int i @ '' does not exist.''))) \<and>
   snd (app (GET_account i) req db) = db \<and>
   status_code (fst (app (GET_account 0) req empty_store)) = 404"
proof (intro conjI impI)
  assume "(0 \<le> i \<or> store_inv db) \<and> JInt i \<in> id' ` set (rows db)"
  then have route: "0 \<le> i \<or> store_inv db" and ex: "JInt i \<in> id' ` set (rows db)"
    by simp_all
  from route ex have admitted: "0 \<le> i"
    by (rule admitted_id)
  from ex obtain a where f: "Account_find i db = Some a"
    and a: "a \<in> set (rows db)" "id' a = JInt i"
    by (rule Account_find_exists)
  have r: "app (GET_account i) req db =
             (make_response (Json (Account_serialize a)) HTTP_200_OK [], db)"
    by (simp add: app_GET[OF admitted] read_account_def f)
  show "status_code (fst (app (GET_account i) req db)) = 200"
    by (simp add: r make_response_def HTTP_200_OK_def)
  show "\<exists>a\<in>set (rows db). id' a = JInt i \<and>
         body (fst (app (GET_account i) req db)) = Json (Account_serialize a)"
    using a by (auto simp: r make_response_def)
next
  assume "JInt i \<notin> id' ` set (rows db)"
  then have f: "Account_find i db = None"
    by (simp add: Account_find_None)
  show h: "read_account i req db =
        (Inr (not_found (''Account '' @ str_int i @ '' does not exist.'')), db)"
    by (simp add: read_account_def f)
  show "status_code (fst (app (GET_account i) req db)) = 404"
  proof (cases "0 \<le> i")
    case True
    then show ?thesis by (simp add: app_GET h status_not_found)
  next
    case False
    then have "i < 0" by simp
    then show ?thesis
      using app_negative_id(2)[of i "GET_account i" req db] by simp
  qed
  assume "0 \<le> i"
  then show "fst (app (GET_account i) req db) =
        not_found (''Account '' @ str_int i @ '' does not exist.'')"
    by (simp add: app_GET h)
next
  show "snd (app (GET_account i) req db) = db"
  proof (cases "0 \<le> i")
    case True
    then show ?thesis
      by (simp add: app_GET read_account_def split: option.splits)
  next
    case False
    then have "i < 0" by simp
    then show ?thesis
      using app_negative_id(3)[of i "GET_account i" req db] by simp
  qed
next
  have "Account_find 0 empty_store = None"
    by (simp add: Account_find_def empty_store_def)
  then show "status_code (fst (app (GET_account 0) req empty_store)) = 404"
    by (simp add: app_GET read_account_def status_not_found)
qed

theorem read_account_200_or_404_witness:
  "((0::int) \<le> 1 \<or> store_inv joe_store) \<and>
   JInt 1 \<in> id' ` set (rows joe_store) \<and>
   JInt 2 \<notin> id' ` set (rows joe_store) \<and>
   status_code (fst (app (GET_account 1) (json_request JNull) joe_store)) = 200 \<and>
   body (fst (app (GET_account 1) (json_request JNull) joe_store)) =
     Json (Account_serialize joe_account) \<and>
   status_code (fst (app (GET_account 2) (json_request JNull) joe_store)) = 404"
proof -
  have ex: "JInt 1 \<in> id' ` set (rows joe_store)"
    by (simp add: joe_store_eq joe_account_def)
  have no: "JInt 2 \<notin> id' ` set (rows joe_store)"
    by (simp add: joe_store_eq joe_account_def)
  have only: "\<And>a. a \<in> set (rows joe_store) \<Longrightarrow> a = joe_account"
    by (simp add: joe_store_eq)
  from read_account_200_or_404
         [where db = joe_store and i = 1 and req = "json_request JNull"] ex
  have "status_code (fst (app (GET_account 1) (json_request JNull) joe_store)) = 200"
    and "\<exists>a\<in>set (rows joe_store). id' a = JInt 1 \<and>
         body (fst (app (GET_account 1) (json_request JNull) joe_store)) =
           Json (Account_serialize a)"
    by simp_all
  moreover from read_account_200_or_404
         [where db = joe_store and i = 2 and req = "json_request JNull"] no
  have "status_code (fst (app (GET_account 2) (json_request JNull) joe_store)) = 404"
    by blast
  ultimately show ?thesis
    using ex no only by auto
qed

section \<open>Listing the accounts\<close>

lemma deserialize_Inl_kind:
  "Account_deserialize now data a = Inl e \<Longrightarrow>
   (\<exists>m. e = DataValidationError m) \<or> (\<exists>m. e = TypeError m)"
  by (cases data) (auto simp: Account_deserialize_def[of now JNull]
      Account_deserialize_def[of now "JBool x" for x]
      Account_deserialize_def[of now "JInt x" for x]
      Account_deserialize_def[of now "JStr x" for x]
      Account_deserialize_def[of now "JList x" for x] dest: deserialize_Inl)

lemma status_error_handlers:
  "status_code (error_handlers (DataValidationError m)) = 400"
  "status_code (error_handlers (TypeError m)) = 500"
  "status_code (error_handlers (HTTPException c m)) = c"
  by (simp_all add: error_handlers_def request_validation_error_def error_response_def
      make_response_def status_defs)

lemma check_content_type_Inl:
  "check_content_type mt req = Inl e \<Longrightarrow> status_code (error_handlers e) = 415"
  by (auto simp: check_content_type_def status_error_handlers
      HTTP_415_UNSUPPORTED_MEDIA_TYPE_def split: option.splits if_splits)

lemma get_json_Inl:
  "get_json req = Inl e \<Longrightarrow> status_code (error_handlers e) \<in> {400, 415}"
  by (auto simp: get_json_def status_error_handlers status_defs
      split: sum.splits json_failure.splits)

lemma create_accounts_201:
  assumes "status_code (fst (app POST_accounts req db)) = 201"
  shows "\<exists>a. rows (snd (app POST_accounts req db)) = rows db @ [a]"
proof (cases "check_content_type ''application/json'' req")
  case (Inl e)
  with assms check_content_type_Inl[OF Inl] show ?thesis
    by (simp add: app_POST create_accounts_def)
next
  case c: (Inr u)
  show ?thesis
  proof (cases "get_json req")
    case (Inl e)
    with assms c get_json_Inl[OF Inl] show ?thesis
      by (simp add: app_POST create_accounts_def)
  next
    case g: (Inr data)
    show ?thesis
    proof (cases "Account_deserialize (today req) data Account_new")
      case (Inl e)
      from deserialize_Inl_kind[OF Inl] have "status_code (error_handlers e) \<in> {400, 500}"
        by (auto simp: status_error_handlers)
      with assms c g Inl show ?thesis
        by (simp add: app_POST create_accounts_def)
    next
      case (Inr a)
      with c g show ?thesis
        by (simp add: app_POST create_accounts_def Account_create_def Let_def)
    qed
  qed
qed

lemma serve_posts_length:
  "serve (map (Pair POST_accounts) reqs) db = (resps, db') \<Longrightarrow>
   list_all (\<lambda>r. status_code r = 201) resps \<Longrightarrow>
   length (rows db') = length (rows db) + length reqs"
proof (induction reqs arbitrary: db resps db')
  case Nil
  then show ?case by simp
next
  case (Cons req reqs)
  obtain r db1 where a: "app POST_accounts req db = (r, db1)"
    by (cases "app POST_accounts req db")
  obtain rs db2 where s: "serve (map (Pair POST_accounts) reqs) db1 = (rs, db2)"
    by (cases "serve (map (Pair POST_accounts) reqs) db1")
  from Cons.prems(1) a s have eq: "resps = r # rs" "db' = db2"
    by simp_all
  with Cons.prems(2) have r: "status_code r = 201" and rs: "list_all (\<lambda>r. status_code r = 201) rs"
    by simp_all
  from create_accounts_201[of req db] a r have "length (rows db1) = Suc (length (rows db))"
    by auto
  with Cons.IH[OF s rs] eq show ?case by simp
qed

text \<open>
  Claim C7. \<^verbatim>\<open>GET /accounts\<close> is always answered with 200 and the JSON array of the
  serializations of all stored accounts, which may be empty, and leaves the store as it
  was. When N \<^verbatim>\<open>POST /accounts\<close> requests, served one after the other from the empty
  store, were each answered with 201, the array has exactly N entries.
\<close>

theorem list_accounts_all:
  "app GET_accounts req db =
     (\<lparr>status_code = 200, body = Json (JList (map Account_serialize (rows db))),
       headers = []\<rparr>, db) \<and>
   (serve (map (Pair POST_accounts) reqs) empty_store = (resps, db') \<and>
    list_all (\<lambda>r. status_code r = 201) resps \<longrightarrow>
      (\<exists>entries. body (fst (app GET_accounts req db')) = Json (JList entries) \<and>
                 length entries = length reqs))"
proof (intro conjI impI)
  show l: "app GET_accounts req db =
     (\<lparr>status_code = 200, body = Json (JList (map Account_serialize (rows db))),
       headers = []\<rparr>, db)" for db
    by (simp add: app_GET_all list_accounts_def Account_all_def make_response_def
        HTTP_200_OK_def)
  assume "serve (map (Pair POST_accounts) reqs) empty_store = (resps, db') \<and>
    list_all (\<lambda>r. status_code r = 201) resps"
  then have "length (rows db') = length (rows empty_store) + length reqs"
    using serve_posts_length by blast
  then have "length (map Account_serialize (rows db')) = length reqs"
    by (simp add: empty_store_def)
  then show "\<exists>entries. body (fst (app GET_accounts req db')) = Json (JList entries) \<and>
                 length entries = length reqs"
    by (simp add: l)
qed

theorem list_accounts_all_witness:
  "serve (map (Pair POST_accounts) [json_request (JObj joe), json_request (JObj joe)])
     empty_store =
     ([\<lparr>status_code = 201, body = Json (Account_serialize joe_account),
        headers = [(''Location'', ''http://localhost/accounts/1'')]\<rparr>,
       \<lparr>status_code = 201, body = Json (Account_serialize (joe_account\<lparr>id' := JInt 2\<rparr>)),
        headers = [(''Location'', ''http://localhost/accounts/2'')]\<rparr>],
      \<lparr>rows = [joe_account, joe_account\<lparr>id' := JInt 2\<rparr>], next_id = 3\<rparr>) \<and>
   list_all (\<lambda>r. status_code r = 201)
     [\<lparr>status_code = 201, body = Json (Account_serialize joe_account),
        headers = [(''Location'', ''http://localhost/accounts/1'')]\<rparr>,
      \<lparr>status_code = 201, body = Json (Account_serialize (joe_account\<lparr>id' := JInt 2\<rparr>)),
        headers = [(''Location'', ''http://localhost/accounts/2'')]\<rparr>] \<and>
   (\<exists>entries. body (fst (app GET_accounts (json_request JNull)
        \<lparr>rows = [joe_account, joe_account\<lparr>id' := JInt 2\<rparr>], next_id = 3\<rparr>)) =
        Json (JList entries) \<and> length entries = 2) \<and>
   body (fst (app GET_accounts (json_request JNull) empty_store)) = Json (JList [])"
proof -
  let ?resps = "[\<lparr>status_code = 201, body = Json (Account_serialize joe_account),
        headers = [(''Location'', ''http://localhost/accounts/1'')]\<rparr>,
       \<lparr>status_code = 201, body = Json (Account_serialize (joe_account\<lparr>id' := JInt 2\<rparr>)),
        headers = [(''Location'', ''http://localhost/accounts/2'')]\<rparr>]"
  let ?db = "\<lparr>rows = [joe_account, joe_account\<lparr>id' := JInt 2\<rparr>], next_id = 3\<rparr>"
  have d: "Account_deserialize (today (json_request (JObj joe))) (JObj joe) Account_new =
             Inr (joe_account\<lparr>id' := JNull\<rparr>)"
    by (simp add: eval_defs joe_account_def)
  have p: "app POST_accounts (json_request (JObj joe)) db =
             (make_response
                (Json (Account_serialize (joe_account\<lparr>id' := JInt (next_id db)\<rparr>)))
                HTTP_201_CREATED
                [(''Location'', url_for_read_account (json_request (JObj joe)) (next_id db))],
              db\<lparr>rows := rows db @ [joe_account\<lparr>id' := JInt (next_id db)\<rparr>],
                 next_id := next_id db + 1\<rparr>)" for db
    using create_accounts_success[OF _ _ d, of db] by (simp add: json_request_def)
  have u: "url_for_read_account (json_request (JObj joe)) n =
             ''http://localhost/accounts/'' @ str_int n" for n
    by (simp add: url_for_read_account_def json_request_def)
  have s: "serve (map (Pair POST_accounts) [json_request (JObj joe), json_request (JObj joe)])
     empty_store = (?resps, ?db)"
    by (simp add: p u empty_store_def make_response_def HTTP_201_CREATED_def
        str_int_def digit_char_def joe_account_def)
  have ok: "list_all (\<lambda>r. status_code r = 201) ?resps"
    by simp
  have e: "body (fst (app GET_accounts (json_request JNull) empty_store)) = Json (JList [])"
    using list_accounts_all
            [where req = "json_request JNull" and db = empty_store and reqs = "[]"
               and resps = "[]" and db' = empty_store]
    by (simp add: empty_store_def)
  from list_accounts_all
         [where req = "json_request JNull" and db = empty_store
            and reqs = "[json_request (JObj joe), json_request (JObj joe)]"
            and resps = ?resps and db' = ?db] s ok
  have "\<exists>entries. body (fst (app GET_accounts (json_request JNull) ?db)) =
          Json (JList entries) \<and>
          length entries = length [json_request (JObj joe), json_request (JObj joe)]"
    by blast
  then have n: "\<exists>entries. body (fst (app GET_accounts (json_request JNull) ?db)) =
          Json (JList entries) \<and> length entries = 2"
    by (simp add: numeral_2_eq_2)
  show ?thesis
    by (rule conjI[OF s conjI[OF ok conjI[OF n e]]])
qed

section \<open>The invariant of the store\<close>

text \<open>
  Every store reached from the empty one by serving requests satisfies the invariant
  that the creation of an account relies on.
\<close>

lemma store_invI:
  assumes "1 \<le> next_id db" and "distinct (map id' (rows db))"
    and "\<And>a. a \<in> set (rows db) \<Longrightarrow> \<exists>i. id' a = JInt i \<and> 1 \<le> i \<and> i < next_id db"
  shows "store_inv db"
  unfolding store_inv_def list_all_iff
proof (intro conjI ballI)
  fix a assume "a \<in> set (rows db)"
  from assms(3)[OF this] obtain i where "id' a = JInt i" "1 \<le> i" "i < next_id db"
    by blast
  then show "case id' a of JInt i \<Rightarrow> 1 \<le> i \<and> i < next_id db | _ \<Rightarrow> False"
    by simp
qed (rule assms(1) assms(2))+

lemma store_invD:
  assumes "store_inv db"
  shows "1 \<le> next_id db" and "distinct (map id' (rows db))"
  using assms by (simp_all add: store_inv_def)

lemma store_inv_create:
  assumes "store_inv db"
  shows "store_inv (snd (Account_create a db))"
proof (rule store_invI)
  let ?db = "snd (Account_create a db)"
  have r: "rows ?db = rows db @ [a\<lparr>id' := JInt (next_id db)\<rparr>]"
    and n: "next_id ?db = next_id db + 1"
    by (simp_all add: Account_create_def Let_def)
  show "1 \<le> next_id ?db"
    using store_invD(1)[OF assms] by (simp add: n)
  show "distinct (map id' (rows ?db))"
    using store_invD(2)[OF assms] store_inv_fresh[OF assms] by (simp add: r)
  fix b assume "b \<in> set (rows ?db)"
  then consider "b \<in> set (rows db)" | "b = a\<lparr>id' := JInt (next_id db)\<rparr>"
    by (auto simp: r)
  then show "\<exists>i. id' b = JInt i \<and> 1 \<le> i \<and> i < next_id ?db"
  proof cases
    case 1
    with assms obtain i where "id' b = JInt i" "1 \<le> i" "i < next_id db"
      by (rule store_inv_row)
    then show ?thesis
      by (simp add: n)
  next
    case 2
    then show ?thesis
      using store_invD(1)[OF assms] by (simp add: n)
  qed
qed

lemma store_inv_update:
  assumes "store_inv db" and "Account_update a db = Inr db'"
  shows "store_inv db'"
proof (rule store_invI)
  from assms(2) have ex: "list_ex (\<lambda>r. id' r = id' a) (rows db)"
    and db': "db' = db\<lparr>rows := map (\<lambda>r. if id' r = id' a then a else r) (rows db)\<rparr>"
    by (auto simp: Account_update_def split: if_splits)
  have ids: "map (id' \<circ> (\<lambda>r. if id' r = id' a then a else r)) (rows db) = map id' (rows db)"
    by (rule map_cong) simp_all
  show "1 \<le> next_id db'"
    using store_invD(1)[OF assms(1)] by (simp add: db')
  show "distinct (map id' (rows db'))"
    using store_invD(2)[OF assms(1)] by (simp add: db' ids)
  fix b assume "b \<in> set (rows db')"
  then obtain r where r: "r \<in> set (rows db)" "id' b = id' r"
    by (auto simp: db' split: if_splits)
  from assms(1) r(1) obtain i where "id' r = JInt i" "1 \<le> i" "i < next_id db"
    by (rule store_inv_row)
  with r(2) show "\<exists>i. id' b = JInt i \<and> 1 \<le> i \<and> i < next_id db'"
    by (simp add: db')
qed

lemma store_inv_delete:
  assumes "store_inv db"
  shows "store_inv (Account_delete a db)"
proof (rule store_invI)
  show "1 \<le> next_id (Account_delete a db)"
    using store_invD(1)[OF assms] by (simp add: Account_delete_def)
  show "distinct (map id' (rows (Account_delete a db)))"
    using store_invD(2)[OF assms] by (simp add: Account_delete_def distinct_map_filter)
  fix b assume "b \<in> set (rows (Account_delete a db))"
  then have "b \<in> set (rows db)"
    by (simp add: Account_delete_def)
  with assms obtain i where "id' b = JInt i" "1 \<le> i" "i < next_id db"
    by (rule store_inv_row)
  then show "\<exists>i. id' b = JInt i \<and> 1 \<le> i \<and> i < next_id (Account_delete a db)"
    by (simp add: Account_delete_def)
qed

lemma create_accounts_store:
  "snd (create_accounts req db) = db \<or>
   (\<exists>a. snd (create_accounts req db) = snd (Account_create a db))"
  by (auto simp: create_accounts_def Account_create_def Let_def split: sum.splits)

lemma update_account_store:
  "snd (update_account i req db) = db \<or>
   (\<exists>a. Account_update a db = Inr (snd (update_account i req db)))"
  by (auto simp: update_account_def split: sum.splits option.splits)

lemma delete_account_store:
  "snd (delete_account i req db) = db \<or>
   (\<exists>a. snd (delete_account i req db) = Account_delete a db)"
  by (auto simp: delete_account_def split: option.splits)

lemma snd_app: "snd (app rt req db) = snd (dispatch rt req db)"
  by (simp add: app_def split: prod.splits sum.splits)

lemma store_inv_app:
  assumes "store_inv db"
  shows "store_inv (snd (app rt req db))"
proof (cases rt)
  case POST_accounts
  with create_accounts_store[of req db] store_inv_create[OF assms] assms show ?thesis
    by (auto simp: snd_app dispatch_def)
next
  case GET_accounts
  then show ?thesis
    using assms by (simp add: snd_app dispatch_def list_accounts_def)
next
  case (GET_account i)
  then show ?thesis
    using assms
    by (simp add: snd_app dispatch_def int_converter_def read_account_def
        split: option.splits)
next
  case (PUT_account i)
  with update_account_store[of i req db] store_inv_update[OF assms] assms show ?thesis
    by (auto simp: snd_app dispatch_def int_converter_def)
next
  case (DELETE_account i)
  with delete_account_store[of i req db] store_inv_delete[OF assms] assms show ?thesis
    by (auto simp: snd_app dispatch_def int_converter_def)
qed

lemma store_inv_serve:
  "store_inv db \<Longrightarrow> store_inv (snd (serve rs db))"
proof (induction rs arbitrary: db)
  case Nil
  then show ?case by simp
next
  case (Cons x rs)
  obtain rt req where x: "x = (rt, req)" by (cases x)
  obtain r db1 where a: "app rt req db = (r, db1)" by (cases "app rt req db")
  obtain rs' db2 where s: "serve rs db1 = (rs', db2)" by (cases "serve rs db1")
  from store_inv_app[OF Cons.prems, of rt req] a have "store_inv db1" by simp
  from Cons.IH[OF this] s show ?case
    by (simp add: x a)
qed

lemma store_inv_joe_store: "store_inv joe_store"
  unfolding joe_store_def by (rule store_inv_app[OF store_inv_empty])

end
